theory Spec2Isabelle
  imports Main "HOL-Library.Word"
begin

section \<open>JavaScript values\<close>

text \<open>
  A JavaScript string is a sequence of UTF-16 code units; \<open>length\<close> is its
  \<^verbatim>\<open>.length\<close>. \<open>str\<close> embeds an ASCII literal.
\<close>

type_synonym code_unit = "16 word"
type_synonym js_string = "code_unit list"

definition str :: "string \<Rightarrow> js_string" where
  "str s = map (\<lambda>c. of_nat (of_char c)) s"

text \<open>
  A variable declared \<^verbatim>\<open>T | null\<close> that the code can also leave
  \<^verbatim>\<open>undefined\<close> (through \<^verbatim>\<open>return undefined as T\<close>).
\<close>

datatype 'a nullable = Null | Undefined | Value 'a

text \<open>\<^verbatim>\<open>!x\<close> on an array-or-null, a number-or-null and a string-or-null.\<close>

definition not_array :: "'a list nullable \<Rightarrow> bool" where
  "not_array x = (case x of Null \<Rightarrow> True | Undefined \<Rightarrow> True | Value xs \<Rightarrow> False)"

definition not_number :: "int option \<Rightarrow> bool" where
  "not_number x = (case x of None \<Rightarrow> True | Some n \<Rightarrow> n = 0)"

definition not_string :: "js_string option \<Rightarrow> bool" where
  "not_string x = (case x of None \<Rightarrow> True | Some s \<Rightarrow> s = [])"

text \<open>\<^verbatim>\<open>String.prototype.includes\<close>.\<close>

fun startsWith :: "js_string \<Rightarrow> js_string \<Rightarrow> bool" where
  "startsWith s [] = True"
| "startsWith [] (p # ps) = False"
| "startsWith (c # cs) (p # ps) = (c = p \<and> startsWith cs ps)"

fun str_includes :: "js_string \<Rightarrow> js_string \<Rightarrow> bool" where
  "str_includes [] sub = (sub = [])"
| "str_includes (c # cs) sub = (startsWith (c # cs) sub \<or> str_includes cs sub)"

text \<open>
  White space and line terminators of ECMAScript: what \<^verbatim>\<open>trim\<close> strips
  and what \<^verbatim>\<open>\s\<close> matches.
\<close>

definition isWhiteSpace :: "code_unit \<Rightarrow> bool" where
  "isWhiteSpace c =
     (c = 0x09 \<or> c = 0x0A \<or> c = 0x0B \<or> c = 0x0C \<or> c = 0x0D \<or> c = 0x20 \<or> c = 0xA0
      \<or> c = 0x1680 \<or> (0x2000 \<le> c \<and> c \<le> 0x200A) \<or> c = 0x2028 \<or> c = 0x2029
      \<or> c = 0x202F \<or> c = 0x205F \<or> c = 0x3000 \<or> c = 0xFEFF)"

definition trim :: "js_string \<Rightarrow> js_string" where
  "trim s = rev (dropWhile isWhiteSpace (rev (dropWhile isWhiteSpace s)))"

section \<open>Types of the application (types/index.ts)\<close>

record task =
  task_id :: int
  title :: js_string
  description :: "js_string option"
  is_completed :: bool
  created_at :: js_string
  updated_at :: js_string

record task_create =
  create_title :: js_string
  create_description :: "js_string option"

record task_update =
  update_title :: "js_string option"
  update_description :: "js_string option option"
  update_is_completed :: "bool option"

type_synonym details = "(js_string \<times> js_string) list"

text \<open>The \<^verbatim>\<open>error\<close> member of an \<^verbatim>\<open>ApiError\<close> body.\<close>

record api_error =
  code :: js_string
  message :: js_string
  details :: "details option"

section \<open>Errors, effects and the environment\<close>

text \<open>
  What an async function can reject with: the module's own \<^verbatim>\<open>ApiRequestError\<close>
  (code, message, details), any other \<^verbatim>\<open>Error\<close> (name, message), or a thrown
  value that is no \<^verbatim>\<open>Error\<close>.
\<close>

datatype js_error =
    ApiRequestError js_string js_string "details option"
  | OtherError js_string js_string
  | NonError

datatype endpoint = Tasks | TaskById int | TaskComplete int

datatype http_method = GET | POST | PATCH | DELETE

datatype payload = NoBody | CreateBody task_create | UpdateBody task_update

text \<open>
  The observable actions, in the order they happen: a request to the token endpoint, a
  request to the remote task store (endpoint, method, body, bearer token), calls to the
  session provider, navigation, and the moment the cache is cleared.
\<close>

datatype effect =
    FetchToken
  | FetchApi endpoint http_method payload js_string
  | CacheCleared
  | SignOutCall
  | SignUpEmail js_string js_string js_string
  | SignInEmail js_string js_string
  | RouterPush js_string

text \<open>
  The module variables of the API client, \<open>tasksCache\<close> and \<open>cacheTimestamp\<close>, together
  with the history of effects. The history is bookkeeping for the statements: the code
  does not read it.
\<close>

record world =
  tasksCache :: "task list nullable"
  cacheTimestamp :: "int option"
  effects :: "effect list"

definition emit :: "effect \<Rightarrow> world \<Rightarrow> world" where
  "emit e w = w\<lparr>effects := effects w @ [e]\<rparr>"

text \<open>
  What the environment answers: \<^verbatim>\<open>fetch\<close> rejects (transport failure) or resolves
  to a response; \<^verbatim>\<open>response.json()\<close> rejects (unparsable body) or resolves.
\<close>

datatype 'r fetch_result = FetchRejects js_string | FetchResolves 'r

datatype 'a json_result = JsonRejects js_string | JsonResolves 'a

text \<open>The body of the token endpoint: \<^verbatim>\<open>null\<close>, or an object with or without a token.\<close>

datatype token_data = DataNull | DataObject "js_string option"

record token_response =
  token_status :: nat
  token_json :: "token_data json_result"

text \<open>
  A response of the remote store as \<^verbatim>\<open>apiRequest<T>\<close> reads it: its status, its body
  read as \<^verbatim>\<open>ApiError\<close> (the branch \<^verbatim>\<open>!response.ok\<close>) and its body read as
  \<^verbatim>\<open>T\<close> (the last line). Read as \<^verbatim>\<open>ApiError\<close>, a body that parses either has the
  member \<^verbatim>\<open>error\<close> (\<open>Some\<close>, with the fields of the declared type) or has not
  (\<open>None\<close>: any other JSON value, such as \<^verbatim>\<open>{"detail": ...}\<close> or \<^verbatim>\<open>null\<close>).
  Read as \<^verbatim>\<open>T\<close>, a body that parses is either the JSON value \<^verbatim>\<open>null\<close>
  (\<open>None\<close>) or a value of the type (\<open>Some\<close>). \<^verbatim>\<open>response.ok\<close> is true of the
  statuses 200 to 299.
\<close>

record 'a api_response =
  status :: nat
  error_json :: "api_error option json_result"
  value_json :: "'a option json_result"

definition response_ok :: "nat \<Rightarrow> bool" where
  "response_ok st = (200 \<le> st \<and> st \<le> 299)"

section \<open>The API client (lib/api.ts)\<close>

definition CACHE_TTL :: int where
  "CACHE_TTL = 30000"

definition clearApiCache :: "world \<Rightarrow> world" where
  "clearApiCache w = emit CacheCleared (w\<lparr>tasksCache := Null, cacheTimestamp := None\<rparr>)"

text \<open>The module variables when the module is loaded.\<close>

definition initial_world :: world where
  "initial_world = \<lparr>tasksCache = Null, cacheTimestamp = None, effects = []\<rparr>"

text \<open>\<open>now\<close> is the value of \<^verbatim>\<open>Date.now()\<close>.\<close>

definition isCacheValid :: "int \<Rightarrow> world \<Rightarrow> bool" where
  "isCacheValid now w =
     (if not_array (tasksCache w) \<or> not_number (cacheTimestamp w) then False
      else (case cacheTimestamp w of None \<Rightarrow> False | Some ts \<Rightarrow> now - ts < CACHE_TTL))"

text \<open>\<^verbatim>\<open>data?.token || null\<close>.\<close>

definition token_or_null :: "token_data \<Rightarrow> js_string option" where
  "token_or_null data =
     (case data of
        DataNull \<Rightarrow> None
      | DataObject None \<Rightarrow> None
      | DataObject (Some t) \<Rightarrow> (if t = [] then None else Some t))"

text \<open>The \<^verbatim>\<open>try\<close> block of \<^verbatim>\<open>getAuthToken\<close>, then the function with its \<^verbatim>\<open>catch\<close>.\<close>

definition getAuthToken_try :: "token_response fetch_result \<Rightarrow> js_error + js_string option" where
  "getAuthToken_try tf =
     (case tf of
        FetchRejects m \<Rightarrow> Inl (OtherError (str ''TypeError'') m)
      | FetchResolves response \<Rightarrow>
          if \<not> response_ok (token_status response) then Inr None
          else (case token_json response of
                  JsonRejects m \<Rightarrow> Inl (OtherError (str ''SyntaxError'') m)
                | JsonResolves data \<Rightarrow> Inr (token_or_null data)))"

definition getAuthToken ::
  "token_response fetch_result \<Rightarrow> world \<Rightarrow> (js_error + js_string option) \<times> world" where
  "getAuthToken tf w =
     (case getAuthToken_try tf of
        Inl e \<Rightarrow> (Inr None, emit FetchToken w)
      | Inr t \<Rightarrow> (Inr t, emit FetchToken w))"

definition unknown_error :: api_error where
  "unknown_error = \<lparr>code = str ''UNKNOWN'', message = str ''An error occurred'', details = None\<rparr>"

text \<open>
  The message of the \<^verbatim>\<open>TypeError\<close> that reading \<^verbatim>\<open>errorData.error.code\<close> throws
  when \<^verbatim>\<open>errorData.error\<close> is undefined (the wording is the engine's).
\<close>

definition undefined_member :: js_string where
  "undefined_member = str ''Cannot read properties of undefined''"

definition apiRequest ::
  "endpoint \<Rightarrow> http_method \<Rightarrow> payload \<Rightarrow> token_response fetch_result \<Rightarrow>
   'a api_response fetch_result \<Rightarrow> world \<Rightarrow> (js_error + 'a nullable) \<times> world" where
  "apiRequest ep m body tf rf w =
     (case getAuthToken tf w of
        (Inl e, w1) \<Rightarrow> (Inl e, w1)
      | (Inr token, w1) \<Rightarrow>
          if not_string token
          then (Inl (ApiRequestError (str ''UNAUTHORIZED'') (str ''Not authenticated'') None), w1)
          else
            (let w2 = emit (FetchApi ep m body (the token)) w1 in
             case rf of
               FetchRejects msg \<Rightarrow> (Inl (OtherError (str ''TypeError'') msg), w2)
             | FetchResolves response \<Rightarrow>
                 if \<not> response_ok (status response)
                 then
                   (let errorData =
                          (case error_json response of
                             JsonRejects x \<Rightarrow> Some unknown_error
                           | JsonResolves b \<Rightarrow> b)
                    in (case errorData of
                          None \<Rightarrow> (Inl (OtherError (str ''TypeError'') undefined_member), w2)
                        | Some e \<Rightarrow>
                            (Inl (ApiRequestError (code e) (message e) (details e)), w2)))
                 else if status response = 204 then (Inr Undefined, w2)
                 else (case value_json response of
                         JsonRejects msg \<Rightarrow> (Inl (OtherError (str ''SyntaxError'') msg), w2)
                       | JsonResolves None \<Rightarrow> (Inr Null, w2)
                       | JsonResolves (Some v) \<Rightarrow> (Inr (Value v), w2))))"

text \<open>
  \<open>now_check\<close> is the clock read by \<^verbatim>\<open>isCacheValid\<close>, \<open>now_store\<close> the clock read
  after the response has arrived.
\<close>

definition getTasks ::
  "bool \<Rightarrow> int \<Rightarrow> int \<Rightarrow> token_response fetch_result \<Rightarrow>
   task list api_response fetch_result \<Rightarrow> world \<Rightarrow> (js_error + task list nullable) \<times> world" where
  "getTasks forceRefresh now_check now_store tf rf w =
     (if \<not> forceRefresh \<and> isCacheValid now_check w then (Inr (tasksCache w), w)
      else
        (case apiRequest Tasks GET NoBody tf rf w of
           (Inl e, w1) \<Rightarrow> (Inl e, w1)
         | (Inr tasks, w1) \<Rightarrow>
             (Inr tasks, w1\<lparr>tasksCache := tasks, cacheTimestamp := Some now_store\<rparr>)))"

definition createTask ::
  "task_create \<Rightarrow> token_response fetch_result \<Rightarrow> task api_response fetch_result \<Rightarrow>
   world \<Rightarrow> (js_error + task nullable) \<times> world" where
  "createTask data tf rf w =
     (case apiRequest Tasks POST (CreateBody data) tf rf w of
        (Inl e, w1) \<Rightarrow> (Inl e, w1)
      | (Inr t, w1) \<Rightarrow> (Inr t, clearApiCache w1))"

definition updateTask ::
  "int \<Rightarrow> task_update \<Rightarrow> token_response fetch_result \<Rightarrow> task api_response fetch_result \<Rightarrow>
   world \<Rightarrow> (js_error + task nullable) \<times> world" where
  "updateTask taskId data tf rf w =
     (case apiRequest (TaskById taskId) PATCH (UpdateBody data) tf rf w of
        (Inl e, w1) \<Rightarrow> (Inl e, w1)
      | (Inr t, w1) \<Rightarrow> (Inr t, clearApiCache w1))"

definition deleteTask ::
  "int \<Rightarrow> token_response fetch_result \<Rightarrow> unit api_response fetch_result \<Rightarrow>
   world \<Rightarrow> (js_error + unit) \<times> world" where
  "deleteTask taskId tf rf w =
     (case apiRequest (TaskById taskId) DELETE NoBody tf rf w of
        (Inl e, w1) \<Rightarrow> (Inl e, w1)
      | (Inr u, w1) \<Rightarrow> (Inr (), clearApiCache w1))"

definition completeTask ::
  "int \<Rightarrow> token_response fetch_result \<Rightarrow> task api_response fetch_result \<Rightarrow>
   world \<Rightarrow> (js_error + task nullable) \<times> world" where
  "completeTask taskId tf rf w =
     (case apiRequest (TaskComplete taskId) POST NoBody tf rf w of
        (Inl e, w1) \<Rightarrow> (Inl e, w1)
      | (Inr t, w1) \<Rightarrow> (Inr t, clearApiCache w1))"

definition uncompleteTask ::
  "int \<Rightarrow> token_response fetch_result \<Rightarrow> task api_response fetch_result \<Rightarrow>
   world \<Rightarrow> (js_error + task nullable) \<times> world" where
  "uncompleteTask taskId tf rf w =
     (case apiRequest (TaskComplete taskId) DELETE NoBody tf rf w of
        (Inl e, w1) \<Rightarrow> (Inl e, w1)
      | (Inr t, w1) \<Rightarrow> (Inr t, clearApiCache w1))"

section \<open>The dashboard controller (app/dashboard/page.tsx)\<close>

record dashboard =
  tasks :: "task list nullable"
  isLoading :: bool
  isCreating :: bool
  error :: "js_string option"

text \<open>The state of the dashboard when it is mounted.\<close>

definition new_dashboard :: dashboard where
  "new_dashboard = \<lparr>tasks = Value [], isLoading = True, isCreating = False, error = None\<rparr>"

text \<open>\<^verbatim>\<open>err instanceof Error\<close> and, for such an error, \<^verbatim>\<open>err.message\<close>.\<close>

fun error_message :: "js_error \<Rightarrow> js_string option" where
  "error_message (ApiRequestError c m d) = Some m"
| "error_message (OtherError n m) = Some m"
| "error_message NonError = None"

text \<open>
  \<open>now\<close> is the clock, \<open>tf\<close> and \<open>rf\<close> are the answers of the token endpoint and of the
  remote store.
\<close>

definition fetchTasks ::
  "int \<Rightarrow> token_response fetch_result \<Rightarrow> task list api_response fetch_result \<Rightarrow>
   dashboard \<Rightarrow> world \<Rightarrow> dashboard \<times> world" where
  "fetchTasks now tf rf d w =
     (let d1 = d\<lparr>error := None\<rparr> in
      (case getTasks True now now tf rf w of
         (Inr fetchedTasks, w1) \<Rightarrow> (d1\<lparr>tasks := fetchedTasks, isLoading := False\<rparr>, w1)
       | (Inl err, w1) \<Rightarrow>
           (case error_message err of
              Some msg \<Rightarrow>
                if str_includes msg (str ''UNAUTHORIZED'')
                   \<or> str_includes msg (str ''Not authenticated'')
                then (d1\<lparr>isLoading := False\<rparr>, emit (RouterPush (str ''/login'')) w1)
                else (d1\<lparr>error := Some msg, isLoading := False\<rparr>, w1)
            | None \<Rightarrow>
                (d1\<lparr>error := Some (str ''Failed to load tasks''), isLoading := False\<rparr>, w1))))"

text \<open>
  The error banner is rendered under \<^verbatim>\<open>error &&\<close>; its button
  \<^verbatim>\<open>Try again\<close> has \<^verbatim>\<open>onClick={fetchTasks}\<close>.
\<close>

definition error_banner :: "dashboard \<Rightarrow> js_string option" where
  "error_banner d = (if not_string (error d) then None else error d)"

definition tryAgain ::
  "int \<Rightarrow> token_response fetch_result \<Rightarrow> task list api_response fetch_result \<Rightarrow>
   dashboard \<Rightarrow> world \<Rightarrow> dashboard \<times> world" where
  "tryAgain = fetchTasks"

text \<open>
  \<open>signOut_result\<close> is what \<^verbatim>\<open>await signOut()\<close> does: \<open>None\<close> when it resolves,
  \<open>Some e\<close> when it rejects with \<open>e\<close>.
\<close>

definition handleLogout :: "js_error option \<Rightarrow> world \<Rightarrow> (js_error + unit) \<times> world" where
  "handleLogout signOut_result w =
     (let w1 = clearApiCache w;
          w2 = emit SignOutCall w1
      in case signOut_result of
           Some e \<Rightarrow> (Inl e, w2)
         | None \<Rightarrow> (Inr (), emit (RouterPush (str ''/login'')) w2))"

section \<open>The task form (components/TaskForm.tsx)\<close>

record task_form =
  form_title :: js_string
  form_description :: js_string
  form_error :: "js_string option"

definition validateTitle :: "js_string \<Rightarrow> js_string option" where
  "validateTitle v =
     (let trimmed = trim v in
      if trimmed = [] then Some (str ''Title is required'')
      else if length trimmed > 200 then Some (str ''Title must be 200 characters or less'')
      else None)"

text \<open>
  \<open>onSubmit\<close> is the property of that name: it acts on the rest of the application
  (\<open>'w\<close>) and resolves or rejects.
\<close>

definition TaskForm_handleSubmit ::
  "(task_create \<Rightarrow> 'w \<Rightarrow> (js_error + unit) \<times> 'w) \<Rightarrow> task_form \<Rightarrow> 'w \<Rightarrow> task_form \<times> 'w" where
  "TaskForm_handleSubmit onSubmit f w =
     (let f1 = f\<lparr>form_error := None\<rparr>;
          validationError = validateTitle (form_title f)
      in if \<not> not_string validationError then (f1\<lparr>form_error := validationError\<rparr>, w)
         else
           (case onSubmit
                   \<lparr>create_title = trim (form_title f),
                    create_description =
                      (if trim (form_description f) = [] then None
                       else Some (trim (form_description f)))\<rparr> w of
              (Inr u, w1) \<Rightarrow> (f1\<lparr>form_title := [], form_description := []\<rparr>, w1)
            | (Inl err, w1) \<Rightarrow>
                (case error_message err of
                   Some msg \<Rightarrow> (f1\<lparr>form_error := Some msg\<rparr>, w1)
                 | None \<Rightarrow> (f1\<lparr>form_error := Some (str ''Failed to create task'')\<rparr>, w1))))"

section \<open>The authentication form and the logout button (components/AuthForm.tsx)\<close>

datatype auth_mode = Login | Signup

record auth_form =
  mode :: auth_mode
  email :: js_string
  password :: js_string
  auth_error :: "js_string option"
  loading :: bool
  submittingRef :: bool

text \<open>
  The regular expression \<^verbatim>\<open>/^[^\s@]+@[^\s@]+\.[^\s@]+$/\<close>: before the first
  \<^verbatim>\<open>@\<close> a non-empty run without white space, after it a run without white space or
  \<^verbatim>\<open>@\<close> that has a dot with at least one character on each side.
\<close>

definition email_char :: "code_unit \<Rightarrow> bool" where
  "email_char c = (\<not> isWhiteSpace c \<and> c \<noteq> 0x40)"

definition validateEmail :: "js_string \<Rightarrow> bool" where
  "validateEmail e =
     (let local = takeWhile (\<lambda>c. c \<noteq> 0x40) e;
          rest = dropWhile (\<lambda>c. c \<noteq> 0x40) e
      in local \<noteq> [] \<and> list_all email_char local \<and>
         (case rest of
            [] \<Rightarrow> False
          | a # domain \<Rightarrow>
              list_all email_char domain \<and>
              list_ex (\<lambda>i. domain ! i = 0x2E) [1..<length domain - 1]))"

definition validatePassword :: "js_string \<Rightarrow> bool" where
  "validatePassword p = (length p \<ge> 8)"

definition verifyAuthenticatedSession ::
  "token_response fetch_result \<Rightarrow> world \<Rightarrow> bool \<times> world" where
  "verifyAuthenticatedSession tf w =
     (case tf of
        FetchRejects m \<Rightarrow> (False, emit FetchToken w)
      | FetchResolves response \<Rightarrow>
          if \<not> response_ok (token_status response) then (False, emit FetchToken w)
          else (case token_json response of
                  JsonRejects m \<Rightarrow> (False, emit FetchToken w)
                | JsonResolves data \<Rightarrow> (\<not> not_string (token_or_null data), emit FetchToken w)))"

text \<open>
  What \<^verbatim>\<open>await signUp.email(...)\<close> and \<^verbatim>\<open>await signIn.email(...)\<close> do: reject, or
  resolve to a result whose \<^verbatim>\<open>error\<close> is set or not.
\<close>

datatype auth_result = AuthRejects | AuthResolves bool

text \<open>
  \<^verbatim>\<open>handleSubmit\<close> in two parts: the synchronous part up to the first
  \<^verbatim>\<open>await\<close> (with \<open>True\<close> when a request was issued and the handler is suspended),
  and the rest, from the answer of the session provider to the end of \<^verbatim>\<open>finally\<close>.
\<close>

definition AuthForm_submit_sync :: "auth_form \<Rightarrow> world \<Rightarrow> (auth_form \<times> world) \<times> bool" where
  "AuthForm_submit_sync f w =
       (if submittingRef f then ((f, w), False)
        else
          (let f1 = f\<lparr>auth_error := None\<rparr> in
           if \<not> validateEmail (email f)
           then ((f1\<lparr>auth_error := Some (str ''Please enter a valid email address'')\<rparr>, w), False)
           else if \<not> validatePassword (password f)
           then ((f1\<lparr>auth_error := Some (str ''Password must be at least 8 characters'')\<rparr>, w),
                 False)
           else
             (let f2 = f1\<lparr>submittingRef := True, loading := True\<rparr> in
              case mode f of
                Signup \<Rightarrow>
                  ((f2, emit (SignUpEmail (email f) (password f)
                                (takeWhile (\<lambda>c. c \<noteq> 0x40) (email f))) w), True)
              | Login \<Rightarrow> ((f2, emit (SignInEmail (email f) (password f)) w), True))))"

definition finally_submit :: "auth_form \<Rightarrow> auth_form" where
  "finally_submit f = f\<lparr>loading := False, submittingRef := False\<rparr>"

definition AuthForm_submit_async ::
  "auth_result \<Rightarrow> token_response fetch_result \<Rightarrow> auth_form \<Rightarrow> world \<Rightarrow> auth_form \<times> world" where
  "AuthForm_submit_async ar tf f w =
       (case ar of
          AuthRejects \<Rightarrow>
            (finally_submit
               (f\<lparr>auth_error :=
                     Some (if mode f = Login then str ''Invalid email or password''
                           else str ''Registration failed'')\<rparr>), w)
        | AuthResolves has_error \<Rightarrow>
            if has_error
            then (finally_submit
                    (f\<lparr>auth_error :=
                          Some (if mode f = Signup
                                then str ''Registration failed. Please try a different email or try again later.''
                                else str ''Invalid email or password'')\<rparr>), w)
            else
              (case verifyAuthenticatedSession tf w of
                 (isAuthenticated, w1) \<Rightarrow>
                   if \<not> isAuthenticated
                   then (finally_submit
                           (f\<lparr>auth_error :=
                                 Some (if mode f = Signup
                                       then str ''Registration succeeded but session creation failed. Please try logging in.''
                                       else str ''Login succeeded but session creation failed. Please try again.'')\<rparr>),
                         w1)
                   else (finally_submit f, emit (RouterPush (str ''/dashboard'')) w1)))"

definition AuthForm_handleSubmit ::
  "auth_result \<Rightarrow> token_response fetch_result \<Rightarrow> auth_form \<Rightarrow> world \<Rightarrow> auth_form \<times> world" where
  "AuthForm_handleSubmit ar tf f w =
     (case AuthForm_submit_sync f w of
        ((f1, w1), False) \<Rightarrow> (f1, w1)
      | ((f1, w1), True) \<Rightarrow> AuthForm_submit_async ar tf f1 w1)"

text \<open>The logout button: its \<open>loading\<close> state and the world.\<close>

definition LogoutButton_handleLogout :: "js_error option \<Rightarrow> bool \<Rightarrow> world \<Rightarrow> bool \<times> world" where
  "LogoutButton_handleLogout signOut_result loading0 w =
     (let w1 = emit SignOutCall w in
      (case signOut_result of
         None \<Rightarrow> (False, emit (RouterPush (str ''/login'')) (clearApiCache w1))
       | Some e \<Rightarrow> (False, emit (RouterPush (str ''/login'')) (clearApiCache w1))))"

section \<open>Notions used in the statements\<close>

text \<open>The error raised when no token is available.\<close>

definition unauthorized :: js_error where
  "unauthorized = ApiRequestError (str ''UNAUTHORIZED'') (str ''Not authenticated'') None"

text \<open>The cache is invalidated: both the task list and the timestamp are cleared.\<close>

definition invalidated :: "world \<Rightarrow> bool" where
  "invalidated w = (tasksCache w = Null \<and> cacheTimestamp w = None)"












text \<open>The navigations in the history.\<close>

fun is_navigation :: "effect \<Rightarrow> bool" where
  "is_navigation (RouterPush p) = True"
| "is_navigation e = False"

definition navigations :: "world \<Rightarrow> effect list" where
  "navigations w = filter is_navigation (effects w)"

text \<open>
  What the task form hands to \<open>onSubmit\<close>, and the form after \<open>onSubmit\<close> has resolved or
  rejected.
\<close>

definition submitted_task :: "task_form \<Rightarrow> task_create" where
  "submitted_task f =
     \<lparr>create_title = trim (form_title f),
      create_description =
        (if trim (form_description f) = [] then None else Some (trim (form_description f)))\<rparr>"

definition form_after :: "task_form \<Rightarrow> js_error + unit \<Rightarrow> task_form" where
  "form_after f res =
     (case res of
        Inr u \<Rightarrow> f\<lparr>form_title := [], form_description := [], form_error := None\<rparr>
      | Inl err \<Rightarrow>
          f\<lparr>form_error := Some (case error_message err of Some msg \<Rightarrow> msg
                                 | None \<Rightarrow> str ''Failed to create task'')\<rparr>)"

text \<open>The requests to the session provider in the history.\<close>

fun is_auth_request :: "effect \<Rightarrow> bool" where
  "is_auth_request (SignUpEmail e p n) = True"
| "is_auth_request (SignInEmail e p) = True"
| "is_auth_request e = False"

definition auth_requests :: "world \<Rightarrow> effect list" where
  "auth_requests w = filter is_auth_request (effects w)"

subsection \<open>Sample values\<close>

definition sample_task :: task where
  "sample_task =
     \<lparr>task_id = 1, title = str ''Buy milk'', description = None, is_completed = False,
      created_at = str ''2024-01-01T00:00:00Z'', updated_at = str ''2024-01-01T00:00:00Z''\<rparr>"

definition sample_world :: world where
  "sample_world = \<lparr>tasksCache = Value [sample_task], cacheTimestamp = Some 1000, effects = []\<rparr>"

definition token_granted :: "token_response fetch_result" where
  "token_granted =
     FetchResolves \<lparr>token_status = 200, token_json = JsonResolves (DataObject (Some (str ''jwt'')))\<rparr>"

definition token_denied :: "token_response fetch_result" where
  "token_denied = FetchResolves \<lparr>token_status = 401, token_json = JsonResolves (DataObject None)\<rparr>"

definition reply :: "nat \<Rightarrow> 'a \<Rightarrow> 'a api_response" where
  "reply st v = \<lparr>status = st, error_json = JsonRejects [], value_json = JsonResolves (Some v)\<rparr>"


definition replied :: "nat \<Rightarrow> 'a \<Rightarrow> 'a api_response fetch_result" where
  "replied st v = FetchResolves (reply st v)"

definition refusal :: "nat \<Rightarrow> api_error option json_result \<Rightarrow> 'a api_response" where
  "refusal st b = \<lparr>status = st, error_json = b, value_json = JsonRejects []\<rparr>"

definition sample_create :: task_create where
  "sample_create = \<lparr>create_title = str ''Buy milk'', create_description = None\<rparr>"

definition sample_update :: task_update where
  "sample_update = \<lparr>update_title = None, update_description = None, update_is_completed = Some True\<rparr>"

definition not_found :: api_error where
  "not_found = \<lparr>code = str ''NOT_FOUND'', message = str ''Task not found'', details = None\<rparr>"


definition expired_token :: api_error where
  "expired_token = \<lparr>code = str ''UNAUTHORIZED'', message = str ''Token has expired'', details = None\<rparr>"

definition failed_signOut :: js_error where
  "failed_signOut = OtherError (str ''TypeError'') (str ''Failed to fetch'')"

definition create_via_api :: "task_create \<Rightarrow> world \<Rightarrow> (js_error + unit) \<times> world" where
  "create_via_api data w =
     (case createTask data token_granted (replied 201 sample_task) w of
        (Inl e, w1) \<Rightarrow> (Inl e, w1)
      | (Inr t, w1) \<Rightarrow> (Inr (), w1))"

definition long_title :: "nat \<Rightarrow> js_string" where
  "long_title n = replicate n 0x61"

definition title_form :: "js_string \<Rightarrow> task_form" where
  "title_form t = \<lparr>form_title = t, form_description = [], form_error = None\<rparr>"

definition login_form :: auth_form where
  "login_form =
     \<lparr>mode = Login, email = str ''ann@example.com'', password = str ''correct horse'',
      auth_error = None, loading = False, submittingRef = False\<rparr>"

section \<open>The token bridge and the shared request contract\<close>
lemma getAuthToken_world: "snd (getAuthToken tf w) = emit FetchToken w"
  by (simp add: getAuthToken_def split: sum.splits)

lemma getAuthToken_result:
  "fst (getAuthToken tf w) = (case getAuthToken_try tf of Inl e \<Rightarrow> Inr None | Inr t \<Rightarrow> Inr t)"
  by (simp add: getAuthToken_def split: sum.splits)

lemma getAuthToken_pair:
  "fst (getAuthToken tf w) = Inr t \<Longrightarrow> getAuthToken tf w = (Inr t, emit FetchToken w)"
  using getAuthToken_world [of tf w] by (cases "getAuthToken tf w") simp

lemma token_or_null_nonempty: "token_or_null d = Some t \<Longrightarrow> t \<noteq> []"
  by (auto simp: token_or_null_def split: token_data.splits option.splits if_splits)

lemma getAuthToken_nonempty: "fst (getAuthToken tf w) = Inr (Some t) \<Longrightarrow> t \<noteq> []"
  by (auto simp: getAuthToken_def getAuthToken_try_def split: sum.splits fetch_result.splits if_splits json_result.splits dest: token_or_null_nonempty)

lemma apiRequest_no_token:
  "fst (getAuthToken tf w) = Inr None \<Longrightarrow>
   apiRequest ep m body tf rf w = (Inl unauthorized, emit FetchToken w)"
  by (simp add: apiRequest_def getAuthToken_pair not_string_def unauthorized_def)

lemma apiRequest_token:
  assumes "fst (getAuthToken tf w) = Inr (Some t)"
  shows "apiRequest ep m body tf rf w =
     (let w2 = emit (FetchApi ep m body t) (emit FetchToken w) in
      case rf of
        FetchRejects msg \<Rightarrow> (Inl (OtherError (str ''TypeError'') msg), w2)
      | FetchResolves response \<Rightarrow>
          if \<not> response_ok (status response)
          then (let errorData =
                       (case error_json response of
                          JsonRejects x \<Rightarrow> Some unknown_error
                        | JsonResolves b \<Rightarrow> b)
                in (case errorData of
                      None \<Rightarrow> (Inl (OtherError (str ''TypeError'') undefined_member), w2)
                    | Some e \<Rightarrow> (Inl (ApiRequestError (code e) (message e) (details e)), w2)))
          else if status response = 204 then (Inr Undefined, w2)
          else (case value_json response of
                  JsonRejects msg \<Rightarrow> (Inl (OtherError (str ''SyntaxError'') msg), w2)
                | JsonResolves None \<Rightarrow> (Inr Null, w2)
                | JsonResolves (Some v) \<Rightarrow> (Inr (Value v), w2)))"
  using getAuthToken_nonempty [OF assms]
  by (simp add: apiRequest_def getAuthToken_pair [OF assms] not_string_def)

lemma getAuthToken_cases:
  "fst (getAuthToken tf w) = Inr None \<or> (\<exists>t. fst (getAuthToken tf w) = Inr (Some t))"
  by (cases "getAuthToken_try tf") (auto simp: getAuthToken_result)



lemma apiRequest_error_status:
  "fst (getAuthToken tf w) = Inr (Some t) \<Longrightarrow> \<not> response_ok (status r) \<Longrightarrow>
   error_json r = JsonResolves (Some e) \<Longrightarrow>
   apiRequest ep m body tf (FetchResolves r) w =
     (Inl (ApiRequestError (code e) (message e) (details e)),
      emit (FetchApi ep m body t) (emit FetchToken w))"
  by (simp add: apiRequest_token)

lemma apiRequest_error_unparsable:
  "fst (getAuthToken tf w) = Inr (Some t) \<Longrightarrow> \<not> response_ok (status r) \<Longrightarrow>
   error_json r = JsonRejects x \<Longrightarrow>
   apiRequest ep m body tf (FetchResolves r) w =
     (Inl (ApiRequestError (str ''UNKNOWN'') (str ''An error occurred'') None),
      emit (FetchApi ep m body t) (emit FetchToken w))"
  by (simp add: apiRequest_token unknown_error_def)

lemma apiRequest_error_unstructured:
  "fst (getAuthToken tf w) = Inr (Some t) \<Longrightarrow> \<not> response_ok (status r) \<Longrightarrow>
   error_json r = JsonResolves None \<Longrightarrow>
   apiRequest ep m body tf (FetchResolves r) w =
     (Inl (OtherError (str ''TypeError'') undefined_member),
      emit (FetchApi ep m body t) (emit FetchToken w))"
  by (simp add: apiRequest_token)




lemma getTasks_miss:
  "\<not> (\<not> forceRefresh \<and> isCacheValid n1 w) \<Longrightarrow>
   getTasks forceRefresh n1 n2 tf rf w =
     (case apiRequest Tasks GET NoBody tf rf w of
        (Inl e, w1) \<Rightarrow> (Inl e, w1)
      | (Inr v, w1) \<Rightarrow> (Inr v, w1\<lparr>tasksCache := v, cacheTimestamp := Some n2\<rparr>))"
  by (auto simp: getTasks_def)








lemma token_granted_result [simp]: "fst (getAuthToken token_granted w) = Inr (Some (str ''jwt''))"
  by (simp add: token_granted_def getAuthToken_def getAuthToken_try_def response_ok_def token_or_null_def str_def)

lemma token_denied_result [simp]: "fst (getAuthToken token_denied w) = Inr None"
  by (simp add: token_denied_def getAuthToken_def getAuthToken_try_def response_ok_def)

lemma apiRequest_replied:
  "response_ok st \<Longrightarrow> st \<noteq> 204 \<Longrightarrow>
   apiRequest ep m body token_granted (replied st v) w =
     (Inr (Value v), emit (FetchApi ep m body (str ''jwt'')) (emit FetchToken w))"
  by (simp add: apiRequest_token [OF token_granted_result] replied_def reply_def)


section \<open>Claims about the API client\<close>

text \<open>
  Claim C6. \<open>getAuthToken\<close> never raises: whatever the token endpoint does, the call
  returns a value. On a missing or invalid session it returns the absent value
  (\<^verbatim>\<open>null\<close>): when the transport fails, when the response is not OK, when the body
  cannot be parsed, and when the body has no token (it is \<^verbatim>\<open>null\<close>, has no
  \<^verbatim>\<open>token\<close>, or has an empty one).
\<close>

theorem getAuthToken_absent_never_raises:
  "(\<exists>t. fst (getAuthToken tf w) = Inr t)
   \<and> fst (getAuthToken (FetchRejects msg) w) = Inr None
   \<and> (\<not> response_ok (token_status r) \<longrightarrow> fst (getAuthToken (FetchResolves r) w) = Inr None)
   \<and> (token_json r = JsonRejects msg \<longrightarrow> fst (getAuthToken (FetchResolves r) w) = Inr None)
   \<and> (token_json r = JsonResolves DataNull \<or> token_json r = JsonResolves (DataObject None)
        \<or> token_json r = JsonResolves (DataObject (Some [])) \<longrightarrow>
      fst (getAuthToken (FetchResolves r) w) = Inr None)"
proof -
  have "\<exists>t. fst (getAuthToken tf w) = Inr t"
    using getAuthToken_cases [of tf w] by blast
  moreover have "fst (getAuthToken (FetchRejects msg) w) = Inr None"
    by (simp add: getAuthToken_result getAuthToken_try_def)
  moreover have "\<not> response_ok (token_status r) \<longrightarrow> fst (getAuthToken (FetchResolves r) w) = Inr None"
    by (simp add: getAuthToken_result getAuthToken_try_def)
  moreover have "token_json r = JsonRejects msg \<longrightarrow> fst (getAuthToken (FetchResolves r) w) = Inr None"
    by (simp add: getAuthToken_result getAuthToken_try_def)
  moreover have "token_json r = JsonResolves DataNull \<or> token_json r = JsonResolves (DataObject None)
        \<or> token_json r = JsonResolves (DataObject (Some [])) \<longrightarrow>
      fst (getAuthToken (FetchResolves r) w) = Inr None"
    by (auto simp: getAuthToken_result getAuthToken_try_def token_or_null_def)
  ultimately show ?thesis by blast
qed

theorem getAuthToken_absent_never_raises_witness:
  "\<not> response_ok (token_status \<lparr>token_status = 401, token_json = JsonRejects []\<rparr>)
   \<and> token_json \<lparr>token_status = 401, token_json = JsonRejects []\<rparr> = JsonRejects []
   \<and> fst (getAuthToken (FetchResolves \<lparr>token_status = 401, token_json = JsonRejects []\<rparr>) sample_world) = Inr None
   \<and> token_json \<lparr>token_status = 200, token_json = JsonResolves (DataObject None)\<rparr> = JsonResolves (DataObject None)
   \<and> fst (getAuthToken (FetchResolves \<lparr>token_status = 200, token_json = JsonResolves (DataObject None)\<rparr>) sample_world) = Inr None"
  using getAuthToken_absent_never_raises
          [where w = sample_world and msg = "[]"
             and r = "\<lparr>token_status = 401, token_json = JsonRejects []\<rparr>"]
        getAuthToken_absent_never_raises
          [where w = sample_world
             and r = "\<lparr>token_status = 200, token_json = JsonResolves (DataObject None)\<rparr>"]
  by (simp add: response_ok_def)

text \<open>
  Claim C5. If token acquisition yields no token, the shared request function fails with
  the error of kind \<open>UNAUTHORIZED\<close>, and so does every task operation that acquires a
  token (\<open>getTasks\<close> when it does not serve the cache, and the five mutations). The world
  after the call is the world before it with the request to the token endpoint added:
  no request to the remote task store is issued and the cache is untouched.
\<close>

theorem no_token_fails_unauthorized_without_request:
  assumes "fst (getAuthToken tf w) = Inr None"
  shows "apiRequest ep m body tf rf w = (Inl unauthorized, emit FetchToken w)
     \<and> (\<not> (\<not> forceRefresh \<and> isCacheValid n1 w) \<longrightarrow>
          getTasks forceRefresh n1 n2 tf rl w = (Inl unauthorized, emit FetchToken w))
     \<and> createTask cd tf rt w = (Inl unauthorized, emit FetchToken w)
     \<and> updateTask i ud tf rt w = (Inl unauthorized, emit FetchToken w)
     \<and> deleteTask i tf ru w = (Inl unauthorized, emit FetchToken w)
     \<and> completeTask i tf rt w = (Inl unauthorized, emit FetchToken w)
     \<and> uncompleteTask i tf rt w = (Inl unauthorized, emit FetchToken w)"
  by (simp add: apiRequest_no_token [OF assms] getTasks_miss createTask_def updateTask_def
      deleteTask_def completeTask_def uncompleteTask_def)


theorem no_token_fails_unauthorized_without_request_witness:
  "fst (getAuthToken token_denied sample_world) = Inr None
   \<and> \<not> (\<not> True \<and> isCacheValid 1001 sample_world)
   \<and> getTasks True 1001 1002 token_denied (replied 200 [sample_task]) sample_world
        = (Inl unauthorized, emit FetchToken sample_world)
   \<and> createTask sample_create token_denied (replied 200 sample_task) sample_world
        = (Inl unauthorized, emit FetchToken sample_world)
   \<and> deleteTask 1 token_denied (replied 204 ()) sample_world
        = (Inl unauthorized, emit FetchToken sample_world)"
  using no_token_fails_unauthorized_without_request
          [OF token_denied_result, where w = sample_world and forceRefresh = True
             and ?n1.0 = 1001 and ?n2.0 = 1002 and rl = "replied 200 [sample_task]"
             and cd = sample_create and rt = "replied 200 sample_task" and i = 1
             and ru = "replied 204 ()" and ud = sample_update and ep = Tasks and m = GET
             and body = NoBody and rf = "replied 200 [sample_task]"]
  by simp

text \<open>
  Claim C7. With a structured error body, and with a body that cannot be parsed, a
  non-success response raises the \<^verbatim>\<open>ApiRequestError\<close> that the claim describes
  (lemmas \<open>apiRequest_error_status\<close> and \<open>apiRequest_error_unparsable\<close>). The claim fails at
  a non-success response whose body parses but has no member \<^verbatim>\<open>error\<close>, such as the
  body \<^verbatim>\<open>{"detail": "Not Found"}\<close> with status 404: the fallback to \<open>UNKNOWN\<close> covers
  only the body that does not parse, and reading \<^verbatim>\<open>errorData.error.code\<close> throws a
  plain \<^verbatim>\<open>TypeError\<close>, which carries neither a code of the body nor \<open>UNKNOWN\<close>. The
  operations raise that \<^verbatim>\<open>TypeError\<close> to their callers.
\<close>

theorem non_success_unstructured_body_raises_TypeError:
  "\<not> response_ok 404
   \<and> apiRequest (TaskById 7) GET NoBody token_granted
        (FetchResolves (refusal 404 (JsonResolves None) :: task api_response)) sample_world
     = (Inl (OtherError (str ''TypeError'') undefined_member),
        sample_world\<lparr>effects := [FetchToken, FetchApi (TaskById 7) GET NoBody (str ''jwt'')]\<rparr>)
   \<and> fst (getTasks True 1001 1002 token_granted
             (FetchResolves (refusal 404 (JsonResolves None))) sample_world)
     = Inl (OtherError (str ''TypeError'') undefined_member)
   \<and> fst (updateTask 7 sample_update token_granted
             (FetchResolves (refusal 404 (JsonResolves None))) sample_world)
     = Inl (OtherError (str ''TypeError'') undefined_member)
   \<and> fst (deleteTask 7 token_granted
             (FetchResolves (refusal 404 (JsonResolves None))) sample_world)
     = Inl (OtherError (str ''TypeError'') undefined_member)
   \<and> fst (deleteTask 7 token_granted
             (FetchResolves (refusal 404 (JsonRejects []))) sample_world)
     = Inl (ApiRequestError (str ''UNKNOWN'') (str ''An error occurred'') None)
   \<and> fst (deleteTask 7 token_granted
             (FetchResolves (refusal 404 (JsonResolves (Some not_found)))) sample_world)
     = Inl (ApiRequestError (str ''NOT_FOUND'') (str ''Task not found'') None)"
proof -
  have st: "\<not> response_ok (status (refusal 404 b :: 'a api_response))"
    and ej: "error_json (refusal 404 b :: 'a api_response) = b" for b
    by (simp_all add: refusal_def response_ok_def)
  have a: "apiRequest ep m body token_granted
        (FetchResolves (refusal 404 (JsonResolves None) :: 'a api_response)) sample_world
     = (Inl (OtherError (str ''TypeError'') undefined_member),
        emit (FetchApi ep m body (str ''jwt'')) (emit FetchToken sample_world))" for ep m body
    by (rule apiRequest_error_unstructured [OF token_granted_result st ej])
  have b: "apiRequest ep m body token_granted
        (FetchResolves (refusal 404 (JsonRejects []) :: 'a api_response)) sample_world
     = (Inl (ApiRequestError (str ''UNKNOWN'') (str ''An error occurred'') None),
        emit (FetchApi ep m body (str ''jwt'')) (emit FetchToken sample_world))" for ep m body
    by (rule apiRequest_error_unparsable [OF token_granted_result st ej])
  have c: "apiRequest ep m body token_granted
        (FetchResolves (refusal 404 (JsonResolves (Some not_found)) :: 'a api_response)) sample_world
     = (Inl (ApiRequestError (str ''NOT_FOUND'') (str ''Task not found'') None),
        emit (FetchApi ep m body (str ''jwt'')) (emit FetchToken sample_world))" for ep m body
    using apiRequest_error_status
            [OF token_granted_result st ej, where e = not_found and ep = ep and m = m
               and body = body]
    by (simp add: not_found_def)
  have w: "emit (FetchApi (TaskById 7) GET NoBody (str ''jwt'')) (emit FetchToken sample_world)
      = sample_world\<lparr>effects := [FetchToken, FetchApi (TaskById 7) GET NoBody (str ''jwt'')]\<rparr>"
    by (simp add: emit_def sample_world_def)
  show ?thesis
    by (simp add: a b c w getTasks_miss updateTask_def deleteTask_def response_ok_def)
qed



section \<open>Claims about the read cache\<close>


















section \<open>Claims about the dashboard controller\<close>

lemma getTasks_forced:
  "getTasks True n1 n2 tf rf w =
     (case apiRequest Tasks GET NoBody tf rf w of
        (Inl e, w1) \<Rightarrow> (Inl e, w1)
      | (Inr v, w1) \<Rightarrow> (Inr v, w1\<lparr>tasksCache := v, cacheTimestamp := Some n2\<rparr>))"
  by (simp add: getTasks_miss)

text \<open>
  Claim C3. The claim fails at a list fetch that the remote store answers with status 401
  and the structured body of code \<open>UNAUTHORIZED\<close> and message \<open>Token has expired\<close>. The
  error that \<open>getTasks\<close> raises has the kind \<open>UNAUTHORIZED\<close>, but \<open>fetchTasks\<close> looks for
  that word in the message of the error, not in its code: it does not navigate, and it
  sets the inline error, so that the banner shows the message. The client's own error of
  the same kind, raised when no token is available, does make it navigate to the login
  view without a banner, since its message is \<open>Not authenticated\<close>.
\<close>

theorem fetchTasks_unauthorized_code_shown_inline:
  "fst (getTasks True 1000 1000 token_granted
          (FetchResolves (refusal 401 (JsonResolves (Some expired_token)))) sample_world)
     = Inl (ApiRequestError (str ''UNAUTHORIZED'') (str ''Token has expired'') None)
   \<and> fetchTasks 1000 token_granted
        (FetchResolves (refusal 401 (JsonResolves (Some expired_token)))) new_dashboard sample_world
     = (new_dashboard\<lparr>error := Some (str ''Token has expired''), isLoading := False\<rparr>,
        sample_world\<lparr>effects := [FetchToken, FetchApi Tasks GET NoBody (str ''jwt'')]\<rparr>)
   \<and> navigations
        (snd (fetchTasks 1000 token_granted
                (FetchResolves (refusal 401 (JsonResolves (Some expired_token))))
                new_dashboard sample_world)) = []
   \<and> error_banner
        (fst (fetchTasks 1000 token_granted
                (FetchResolves (refusal 401 (JsonResolves (Some expired_token))))
                new_dashboard sample_world)) = Some (str ''Token has expired'')
   \<and> fst (getTasks True 1000 1000 token_denied (replied 200 []) sample_world) = Inl unauthorized
   \<and> fetchTasks 1000 token_denied (replied 200 []) new_dashboard sample_world
     = (new_dashboard\<lparr>isLoading := False\<rparr>,
        sample_world\<lparr>effects := [FetchToken, RouterPush (str ''/login'')]\<rparr>)"
proof -
  have g1: "getTasks True 1000 1000 token_granted
             (FetchResolves (refusal 401 (JsonResolves (Some expired_token)))) sample_world
      = (Inl (ApiRequestError (str ''UNAUTHORIZED'') (str ''Token has expired'') None),
         emit (FetchApi Tasks GET NoBody (str ''jwt'')) (emit FetchToken sample_world))"
    using apiRequest_error_status
            [OF token_granted_result, where e = expired_token and ep = Tasks and m = GET
               and body = NoBody and w = sample_world
               and r = "refusal 401 (JsonResolves (Some expired_token)) :: task list api_response"]
    by (simp add: getTasks_forced refusal_def response_ok_def expired_token_def)
  have g2: "getTasks True 1000 1000 token_denied (replied 200 []) sample_world
      = (Inl unauthorized, emit FetchToken sample_world)"
    by (simp add: getTasks_forced apiRequest_no_token)
  have i1: "\<not> str_includes (str ''Token has expired'') (str ''UNAUTHORIZED'')
      \<and> \<not> str_includes (str ''Token has expired'') (str ''Not authenticated'')"
    by (simp add: str_def)
  have i2: "str_includes (str ''Not authenticated'') (str ''Not authenticated'')"
    by (simp add: str_def)
  have f1: "fetchTasks 1000 token_granted
        (FetchResolves (refusal 401 (JsonResolves (Some expired_token)))) new_dashboard sample_world
      = (new_dashboard\<lparr>error := Some (str ''Token has expired''), isLoading := False\<rparr>,
         emit (FetchApi Tasks GET NoBody (str ''jwt'')) (emit FetchToken sample_world))"
    using i1 by (simp add: fetchTasks_def g1)
  have f2: "fetchTasks 1000 token_denied (replied 200 []) new_dashboard sample_world
      = (new_dashboard\<lparr>error := None, isLoading := False\<rparr>,
         emit (RouterPush (str ''/login'')) (emit FetchToken sample_world))"
    using i2 by (simp add: fetchTasks_def g2 unauthorized_def)
  have b: "str ''Token has expired'' \<noteq> []"
    by (simp add: str_def)
  show ?thesis
    unfolding f1 f2 g1 g2 using b
    by (simp add: emit_def new_dashboard_def sample_world_def navigations_def error_banner_def
        not_string_def)
qed

text \<open>
  Claim C4, as amended. The logout of the dashboard invalidates the cache, then calls
  \<^verbatim>\<open>signOut\<close> and, when that succeeds, then navigates to the login view, in that order.
  The logout button calls \<^verbatim>\<open>signOut\<close>, then invalidates the cache, then navigates to
  the login view, in that order, and does so whether \<^verbatim>\<open>signOut\<close> succeeds or fails.
  Both leave the cache invalidated.
\<close>

theorem logout_order:
  "effects (snd (handleLogout None w))
     = effects w @ [CacheCleared, SignOutCall, RouterPush (str ''/login'')]
   \<and> fst (handleLogout None w) = Inr ()
   \<and> invalidated (snd (handleLogout r w))
   \<and> effects (snd (LogoutButton_handleLogout r l w))
     = effects w @ [SignOutCall, CacheCleared, RouterPush (str ''/login'')]
   \<and> invalidated (snd (LogoutButton_handleLogout r l w))
   \<and> fst (LogoutButton_handleLogout r l w) = False"
  by (cases r)
     (simp_all add: handleLogout_def LogoutButton_handleLogout_def clearApiCache_def emit_def
        invalidated_def Let_def)

text \<open>
  The claim C4 as stated fails for each of the two handlers. The logout button ends the
  session before it invalidates the cache. The logout of the dashboard, when
  \<^verbatim>\<open>signOut\<close> fails, rejects with that failure and does not navigate.
\<close>

theorem logout_as_stated_counterexample:
  "effects (snd (LogoutButton_handleLogout None False sample_world))
     = [SignOutCall, CacheCleared, RouterPush (str ''/login'')]
   \<and> handleLogout (Some failed_signOut) sample_world
     = (Inl failed_signOut,
        \<lparr>tasksCache = Null, cacheTimestamp = None, effects = [CacheCleared, SignOutCall]\<rparr>)"
  by (simp add: handleLogout_def LogoutButton_handleLogout_def clearApiCache_def emit_def
      sample_world_def Let_def)

section \<open>Claims about the forms\<close>

lemma validateTitle_cases:
  "validateTitle t =
     (if length (trim t) = 0 then Some (str ''Title is required'')
      else if 200 < length (trim t) then Some (str ''Title must be 200 characters or less'')
      else None)"
  by (simp add: validateTitle_def Let_def)
lemma isWhiteSpace_a: "\<not> isWhiteSpace 0x61"
  by (simp add: isWhiteSpace_def)

lemma trim_long_title: "trim (long_title n) = long_title n"
  by (simp add: trim_def long_title_def isWhiteSpace_a)

lemma trim_blank: "trim (str ''   '') = []"
  by (simp add: trim_def str_def isWhiteSpace_def)

lemma validateEmail_sample: "validateEmail (str ''ann@example.com'')"
  by (simp add: validateEmail_def str_def email_char_def isWhiteSpace_def upt_rec)

lemma validatePassword_sample: "validatePassword (str ''correct horse'')"
  by (simp add: validatePassword_def str_def)

text \<open>
  Claim C8. A title whose length after trimming is 0 or greater than 200 is rejected by
  the task form with a validation message, and the rest of the application is left as
  it was: \<open>onSubmit\<close> is not called, so no network call is attempted. A title whose length
  after trimming is between 1 and 200 passes the validation and is submitted:
  \<open>onSubmit\<close> is called with the trimmed title.
\<close>

theorem title_validated_before_submit:
  "(length (trim (form_title f)) = 0 \<longrightarrow>
      TaskForm_handleSubmit onSubmit f w = (f\<lparr>form_error := Some (str ''Title is required'')\<rparr>, w))
   \<and> (200 < length (trim (form_title f)) \<longrightarrow>
      TaskForm_handleSubmit onSubmit f w =
        (f\<lparr>form_error := Some (str ''Title must be 200 characters or less'')\<rparr>, w))
   \<and> (1 \<le> length (trim (form_title f)) \<and> length (trim (form_title f)) \<le> 200 \<longrightarrow>
      validateTitle (form_title f) = None
      \<and> TaskForm_handleSubmit onSubmit f w =
          (form_after f (fst (onSubmit (submitted_task f) w)), snd (onSubmit (submitted_task f) w)))"
proof -
  have a: "length (trim (form_title f)) = 0 \<longrightarrow>
      TaskForm_handleSubmit onSubmit f w = (f\<lparr>form_error := Some (str ''Title is required'')\<rparr>, w)"
    by (simp add: TaskForm_handleSubmit_def validateTitle_cases not_string_def str_def)
  have b: "200 < length (trim (form_title f)) \<longrightarrow>
      TaskForm_handleSubmit onSubmit f w =
        (f\<lparr>form_error := Some (str ''Title must be 200 characters or less'')\<rparr>, w)"
    by (auto simp: TaskForm_handleSubmit_def validateTitle_cases not_string_def str_def)
  have c: "1 \<le> length (trim (form_title f)) \<and> length (trim (form_title f)) \<le> 200 \<longrightarrow>
      validateTitle (form_title f) = None
      \<and> TaskForm_handleSubmit onSubmit f w =
          (form_after f (fst (onSubmit (submitted_task f) w)), snd (onSubmit (submitted_task f) w))"
    by (cases "onSubmit (submitted_task f) w")
       (auto simp: TaskForm_handleSubmit_def validateTitle_cases not_string_def form_after_def
          submitted_task_def Let_def split: sum.splits option.splits)
  show ?thesis using a b c by blast
qed

theorem title_validated_before_submit_witness:
  "length (trim (form_title (title_form (str ''   '')))) = 0
   \<and> TaskForm_handleSubmit create_via_api (title_form (str ''   '')) sample_world
       = ((title_form (str ''   ''))\<lparr>form_error := Some (str ''Title is required'')\<rparr>, sample_world)
   \<and> 200 < length (trim (form_title (title_form (long_title 201))))
   \<and> TaskForm_handleSubmit create_via_api (title_form (long_title 201)) sample_world
       = ((title_form (long_title 201))
            \<lparr>form_error := Some (str ''Title must be 200 characters or less'')\<rparr>, sample_world)
   \<and> 1 \<le> length (trim (form_title (title_form (long_title 200))))
   \<and> length (trim (form_title (title_form (long_title 200)))) \<le> 200
   \<and> validateTitle (form_title (title_form (long_title 200))) = None
   \<and> TaskForm_handleSubmit create_via_api (title_form (long_title 200)) sample_world
       = (title_form [],
          \<lparr>tasksCache = Null, cacheTimestamp = None,
           effects = [FetchToken,
                      FetchApi Tasks POST
                        (CreateBody \<lparr>create_title = long_title 200, create_description = None\<rparr>)
                        (str ''jwt''),
                      CacheCleared]\<rparr>)"
proof -
  have t0: "length (trim (form_title (title_form (str ''   '')))) = 0"
    by (simp add: title_form_def trim_blank)
  have t201: "200 < length (trim (form_title (title_form (long_title 201))))"
    by (simp add: title_form_def trim_long_title) (simp add: long_title_def)
  have t200: "1 \<le> length (trim (form_title (title_form (long_title 200))))
      \<and> length (trim (form_title (title_form (long_title 200)))) \<le> 200"
    by (simp add: title_form_def trim_long_title) (simp add: long_title_def)
  have sub: "submitted_task (title_form (long_title 200))
      = \<lparr>create_title = long_title 200, create_description = None\<rparr>"
    by (simp add: submitted_task_def title_form_def trim_long_title) (simp add: trim_def)
  have api: "create_via_api \<lparr>create_title = long_title 200, create_description = None\<rparr> sample_world
      = (Inr (),
         clearApiCache
           (emit (FetchApi Tasks POST
                    (CreateBody \<lparr>create_title = long_title 200, create_description = None\<rparr>)
                    (str ''jwt''))
              (emit FetchToken sample_world)))"
    by (simp add: create_via_api_def createTask_def apiRequest_replied response_ok_def)
  have w0: "clearApiCache
           (emit (FetchApi Tasks POST
                    (CreateBody \<lparr>create_title = long_title 200, create_description = None\<rparr>)
                    (str ''jwt''))
              (emit FetchToken sample_world))
      = \<lparr>tasksCache = Null, cacheTimestamp = None,
           effects = [FetchToken,
                      FetchApi Tasks POST
                        (CreateBody \<lparr>create_title = long_title 200, create_description = None\<rparr>)
                        (str ''jwt''),
                      CacheCleared]\<rparr>"
    by (simp add: clearApiCache_def emit_def sample_world_def)
  have fa: "form_after (title_form (long_title 200)) (Inr ()) = title_form []"
    by (simp add: form_after_def title_form_def)
  show ?thesis
    using title_validated_before_submit
            [where f = "title_form (str ''   '')" and onSubmit = create_via_api and w = sample_world]
          title_validated_before_submit
            [where f = "title_form (long_title 201)" and onSubmit = create_via_api and w = sample_world]
          title_validated_before_submit
            [where f = "title_form (long_title 200)" and onSubmit = create_via_api and w = sample_world]
          t0 t201 t200
    by (simp add: sub api w0 fa)
qed

text \<open>
  Claim C9. In every state of the login or signup form in which a submission is in flight
  (the guard \<open>submittingRef\<close> is set), a further submission issues no request and leaves
  the form and the world unchanged. So of two rapid submissions, the first of which
  issues its request and is suspended, exactly one request is in flight: the second is
  suppressed. Whatever the first submission did, a second one right after it issues no
  request and changes nothing.
\<close>

theorem double_submit_suppressed:
  "(submittingRef f \<longrightarrow>
      AuthForm_submit_sync f w = ((f, w), False) \<and> AuthForm_handleSubmit ar tf f w = (f, w))
   \<and> (AuthForm_submit_sync f w = ((f1, w1), True) \<longrightarrow>
      submittingRef f1
      \<and> length (auth_requests w1) = length (auth_requests w) + 1
      \<and> AuthForm_submit_sync f1 w1 = ((f1, w1), False)
      \<and> AuthForm_handleSubmit ar' tf' f1 w1 = (f1, w1))
   \<and> AuthForm_submit_sync (fst (fst (AuthForm_submit_sync f w)))
         (snd (fst (AuthForm_submit_sync f w)))
       = (fst (AuthForm_submit_sync f w), False)"
proof -
  have guard: "submittingRef g \<Longrightarrow>
      AuthForm_submit_sync g v = ((g, v), False) \<and> AuthForm_handleSubmit a t g v = (g, v)"
    for g v a t
    by (simp add: AuthForm_submit_sync_def AuthForm_handleSubmit_def)
  have first: "AuthForm_submit_sync f w = ((f1, w1), True) \<Longrightarrow>
      submittingRef f1 \<and> length (auth_requests w1) = length (auth_requests w) + 1"
    by (auto simp: AuthForm_submit_sync_def Let_def auth_requests_def emit_def
        split: if_splits auth_mode.splits)
  have second: "AuthForm_submit_sync (fst (fst (AuthForm_submit_sync f w)))
         (snd (fst (AuthForm_submit_sync f w)))
       = (fst (AuthForm_submit_sync f w), False)"
    by (simp add: AuthForm_submit_sync_def Let_def split: auth_mode.splits)
  show ?thesis using guard first second by blast
qed

theorem double_submit_suppressed_witness:
  "AuthForm_submit_sync login_form initial_world
     = ((login_form\<lparr>submittingRef := True, loading := True\<rparr>,
         emit (SignInEmail (str ''ann@example.com'') (str ''correct horse'')) initial_world), True)
   \<and> submittingRef (login_form\<lparr>submittingRef := True, loading := True\<rparr>)
   \<and> AuthForm_handleSubmit (AuthResolves False) token_granted
        (login_form\<lparr>submittingRef := True, loading := True\<rparr>)
        (emit (SignInEmail (str ''ann@example.com'') (str ''correct horse'')) initial_world)
     = (login_form\<lparr>submittingRef := True, loading := True\<rparr>,
        emit (SignInEmail (str ''ann@example.com'') (str ''correct horse'')) initial_world)
   \<and> length (auth_requests
                (emit (SignInEmail (str ''ann@example.com'') (str ''correct horse'')) initial_world))
     = length (auth_requests initial_world) + 1"
proof -
  have s: "AuthForm_submit_sync login_form initial_world
     = ((login_form\<lparr>submittingRef := True, loading := True\<rparr>,
         emit (SignInEmail (str ''ann@example.com'') (str ''correct horse'')) initial_world), True)"
    using validateEmail_sample validatePassword_sample
    by (simp add: AuthForm_submit_sync_def login_form_def)
  show ?thesis
    using double_submit_suppressed
            [where f = login_form and w = initial_world
               and ?f1.0 = "login_form\<lparr>submittingRef := True, loading := True\<rparr>"
               and ?w1.0 = "emit (SignInEmail (str ''ann@example.com'') (str ''correct horse''))
                              initial_world"
               and ar = "AuthResolves False" and tf = token_granted
               and ar' = "AuthResolves False" and tf' = token_granted]
          double_submit_suppressed
            [where f = "login_form\<lparr>submittingRef := True, loading := True\<rparr>"
               and w = "emit (SignInEmail (str ''ann@example.com'') (str ''correct horse''))
                          initial_world"
               and ?f1.0 = login_form and ?w1.0 = initial_world
               and ar = "AuthResolves False" and tf = token_granted
               and ar' = "AuthResolves False" and tf' = token_granted]
          s
    by simp
qed

end
